theory Spec2Isabelle
  imports Main "HOL-Library.Word" "HOL-Library.List_Lexorder" "HOL-Library.Char_ord"
begin

section \<open>Go values: errors, panics, formatting\<close>

text \<open>
  A Go \<^verbatim>\<open>error\<close> is observed by this code only through its message
  (\<^verbatim>\<open>err.Error()\<close>), so an error value is its message. \<^verbatim>\<open>errors.New\<close> and
  \<^verbatim>\<open>fmt.Errorf\<close> (used without \<^verbatim>\<open>%w\<close>) both build such a value.
\<close>

datatype error = errorString (Error: string)

definition errors_New :: "string \<Rightarrow> error" where
  "errors_New text = errorString text"

text \<open>
  A method either returns or panics at run time. The only panic of the code modelled
  here is the dereference of a nil pointer.
\<close>

datatype runtime_error = nil_pointer_dereference

datatype 'a outcome = Returns 'a | Panics runtime_error

type_synonym byte = "8 word"

type_synonym Duration = int

text \<open>
  A Go slice is a window on a backing array: the array, the index in it of the slice's
  first element, the slice's length and its capacity. Memory is the list of the
  backing arrays, the address of an array being its index in the list.
\<close>

record slice =
  array :: nat
  low :: nat
  len :: nat
  cap :: nat

type_synonym memory = "byte list list"

definition bytes_of :: "memory \<Rightarrow> slice \<Rightarrow> byte list" where
  "bytes_of mem s = take (len s) (drop (low s) (mem ! array s))"

text \<open>
  The built-in \<^verbatim>\<open>append(s, vs...)\<close>, the values \<open>vs\<close> read before anything is written.
  When they fit in the capacity of \<open>s\<close> they are written into its backing array, right
  after its elements, and the result is \<open>s\<close> made longer: whatever other slice looks at
  that part of the array sees the new bytes. Otherwise the elements and the values are
  copied to a new array; its capacity is the runtime's choice (\<open>growslice\<close>, given the
  old capacity and the length needed), at least the length needed.
\<close>

definition append_bytes ::
  "(nat \<Rightarrow> nat \<Rightarrow> nat) \<Rightarrow> memory \<Rightarrow> slice \<Rightarrow> byte list \<Rightarrow> slice \<times> memory" where
  "append_bytes growslice mem s vs =
     (let need = len s + length vs in
      if need \<le> cap s
      then (s\<lparr>len := need\<rparr>,
            mem[array s := take (low s + len s) (mem ! array s) @ vs @
                           drop (low s + need) (mem ! array s)])
      else (let newcap = max need (growslice (cap s) need) in
            (\<lparr>array = length mem, low = 0, len = need, cap = newcap\<rparr>,
             mem @ [bytes_of mem s @ vs @ replicate (newcap - need) 0])))"


text \<open>The verb \<^verbatim>\<open>%d\<close> of package fmt: a decimal numeral, with a minus sign below zero.\<close>

definition digit :: "nat \<Rightarrow> char" where
  "digit n = char_of (48 + n mod 10)"

function decimal :: "nat \<Rightarrow> string" where
  "decimal n = (if n < 10 then [digit n] else decimal (n div 10) @ [digit n])"
  by pat_completeness auto
termination
  by (relation "measure (\<lambda>n. n)") auto

declare decimal.simps [simp del]

definition fmt_d :: "int \<Rightarrow> string" where
  "fmt_d i = (if i < 0 then CHR ''-'' # decimal (nat (- i)) else decimal (nat i))"

text \<open>Reading a decimal numeral back, to say that a message carries a number.\<close>

definition digit_value :: "char \<Rightarrow> nat" where
  "digit_value c = of_char c - 48"

definition read_decimal :: "string \<Rightarrow> nat" where
  "read_decimal s = foldl (\<lambda>acc c. 10 * acc + digit_value c) 0 s"

section \<open>Data model\<close>

text \<open>
  Modelled from the spec: the types of package \<^verbatim>\<open>saml\<close> that the source files use
  and do not declare (EntityDescriptor, EntitiesDescriptor, SPSSODescriptor,
  SSODescriptor, RoleDescriptor, KeyDescriptor, KeyInfo, X509Data, X509Certificate,
  EncryptionMethod, Endpoint, IndexedEndpoint, NameIDFormat). The spec's data model
  describes them; each record has the fields that the code under verification reads or
  writes, under the names the code gives them. \<^verbatim>\<open>x509.Certificate\<close> and \<^verbatim>\<open>url.URL\<close>
  belong to the standard library; of the first the code reads only \<^verbatim>\<open>Raw\<close>, of the
  second it writes only \<^verbatim>\<open>RawQuery\<close>.

  A Go pointer that the code tests against nil or dereferences is an \<open>option\<close>.
  \<^verbatim>\<open>time.Time\<close> is the type parameter \<open>'time\<close>; the content of an IDP role descriptor,
  which the code never inspects, is \<open>'idp\<close>; a tenant's \<^verbatim>\<open>ServiceProvider\<close> value is
  \<open>'sp\<close>. \<^verbatim>\<open>time.Duration\<close> is a count of nanoseconds, and the code only compares it
  with zero.
\<close>

type_synonym NameIDFormat = string

record Certificate =
  Raw :: slice

record URL =
  Scheme :: string
  Opaque :: string
  Host :: string
  Path :: string
  RawQuery :: string
  Fragment :: string

record X509Certificate =
  Data :: string

record X509Data =
  X509Certificates :: "X509Certificate list"

record KeyInfo =
  X509Data :: X509Data

record EncryptionMethod =
  Algorithm :: string

record KeyDescriptor =
  Use :: string
  KeyInfo :: KeyInfo
  EncryptionMethods :: "EncryptionMethod list"

record Endpoint =
  Binding :: string
  Location :: string
  ResponseLocation :: string

record IndexedEndpoint =
  Binding :: string
  Location :: string
  Index :: int

record 'time RoleDescriptor =
  ProtocolSupportEnumeration :: string
  KeyDescriptors :: "KeyDescriptor list"
  ValidUntil :: "'time option"

record 'time SSODescriptor =
  RoleDescriptor :: "'time RoleDescriptor"
  SingleLogoutServices :: "Endpoint list"
  NameIDFormats :: "NameIDFormat list"

record 'time SPSSODescriptor =
  SSODescriptor :: "'time SSODescriptor"
  AuthnRequestsSigned :: "bool option"
  WantAssertionsSigned :: "bool option"
  AssertionConsumerServices :: "IndexedEndpoint list"

record ('time, 'idp) EntityDescriptor =
  EntityID :: string
  ValidUntil :: 'time
  IDPSSODescriptors :: "'idp list"
  SPSSODescriptors :: "'time SPSSODescriptor list"

record ('time, 'idp) EntitiesDescriptor =
  Name :: "string option"
  EntityDescriptors :: "('time, 'idp) EntityDescriptor list"

text \<open>
  \<^verbatim>\<open>ServiceMultipleProvider\<close>, declared in the second source file. The fields
  \<^verbatim>\<open>Key\<close>, \<^verbatim>\<open>HTTPClient\<close>, \<^verbatim>\<open>ForceAuthn\<close>, \<^verbatim>\<open>RequestedAuthnContext\<close> and
  \<^verbatim>\<open>SignatureVerifier\<close> are capabilities that none of its methods reads; they are
  left out. The methods have the pointer receiver \<^verbatim>\<open>smp\<close>; it is the record itself,
  a method being called on a registry that exists.
\<close>

record ('time, 'idp, 'sp) ServiceMultipleProvider =
  EntityID :: string
  Providers :: "string \<rightharpoonup> 'sp"
  Certificate :: "Certificate option"
  Intermediates :: "Certificate option list"
  MetadataURL :: URL
  AcsURL :: URL
  SloURL :: URL
  IDPMetadata :: "('time, 'idp) EntitiesDescriptor option"
  AuthnNameIDFormat :: NameIDFormat
  MetadataValidDuration :: Duration
  AllowIDPInitiated :: bool
  DefaultRedirectURI :: string
  SignatureMethod :: string
  LogoutBindings :: "string list"

section \<open>The registry: GetServiceProvider\<close>

text \<open>
  \<^verbatim>\<open>sp, ok := smp.Providers[entityID]\<close>; when the key is absent the method returns
  \<^verbatim>\<open>fmt.Errorf("no service provider found for entityID %s", entityID)\<close> (beside a
  zero \<^verbatim>\<open>ServiceProvider\<close> that a caller is not to use), otherwise the stored value.
\<close>

definition GetServiceProvider ::
  "('time, 'idp, 'sp) ServiceMultipleProvider \<Rightarrow> string \<Rightarrow> error + 'sp" where
  "GetServiceProvider smp entityID =
     (case Providers smp entityID of
        None \<Rightarrow> Inl (errorString (''no service provider found for entityID '' @ entityID))
      | Some sp \<Rightarrow> Inr sp)"

section \<open>Package net/url: query values\<close>

text \<open>
  \<^verbatim>\<open>url.Values\<close> is a \<^verbatim>\<open>map[string][]string\<close>. Its \<^verbatim>\<open>Encode\<close> walks the keys in
  sorted order, so a value of the type is an association list from a key to the list
  of its values, and the order of the entries carries no meaning.
  \<^verbatim>\<open>Add\<close> is \<^verbatim>\<open>v[key] = append(v[key], value)\<close>.
\<close>

type_synonym Values = "(string \<times> string list) list"

definition Values_Add :: "Values \<Rightarrow> string \<Rightarrow> string \<Rightarrow> Values" where
  "Values_Add v key val =
     (case map_of v key of
        None \<Rightarrow> v @ [(key, [val])]
      | Some vs \<Rightarrow> map (\<lambda>(k, ws). if k = key then (k, vs @ [val]) else (k, ws)) v)"

text \<open>
  \<^verbatim>\<open>QueryEscape\<close>: letters, digits and \<^verbatim>\<open>- _ . ~\<close> stay, a space becomes \<^verbatim>\<open>+\<close>, every
  other byte becomes \<^verbatim>\<open>%XX\<close> in upper-case hexadecimal.
\<close>

definition shouldEscape :: "char \<Rightarrow> bool" where
  "shouldEscape c =
     (\<not> ((CHR ''a'' \<le> c \<and> c \<le> CHR ''z'') \<or> (CHR ''A'' \<le> c \<and> c \<le> CHR ''Z'') \<or>
         (CHR ''0'' \<le> c \<and> c \<le> CHR ''9'') \<or>
         c = CHR ''-'' \<or> c = CHR ''_'' \<or> c = CHR ''.'' \<or> c = CHR ''~''))"

definition upperhex :: "nat \<Rightarrow> char" where
  "upperhex n = ''0123456789ABCDEF'' ! (n mod 16)"

definition escape_byte :: "char \<Rightarrow> string" where
  "escape_byte c =
     (if shouldEscape c
      then (if c = CHR '' '' then ''+''
            else [CHR ''%'', upperhex (of_char c div 16), upperhex (of_char c)])
      else [c])"

definition QueryEscape :: "string \<Rightarrow> string" where
  "QueryEscape s = concat (map escape_byte s)"

text \<open>
  \<^verbatim>\<open>Encode\<close>: the keys sorted (Go compares strings byte by byte), and for each value of
  each key \<^verbatim>\<open>key=value\<close>, both escaped, with \<^verbatim>\<open>&\<close> written before every pair
  but the first (\<^verbatim>\<open>if buf.Len() > 0 { buf.WriteByte('&') }\<close>). The values of a key are
  \<^verbatim>\<open>v[k]\<close>, none when the key is absent.
\<close>

definition values_of :: "Values \<Rightarrow> string \<Rightarrow> string list" where
  "values_of v k = (case map_of v k of None \<Rightarrow> [] | Some vs \<Rightarrow> vs)"

definition write_pair :: "string \<Rightarrow> string \<Rightarrow> string \<Rightarrow> string" where
  "write_pair keyEscaped buf val =
     (if length buf > 0 then buf @ ''&'' else buf) @ keyEscaped @ ''='' @ QueryEscape val"

definition write_key :: "Values \<Rightarrow> string \<Rightarrow> string \<Rightarrow> string" where
  "write_key v buf k = foldl (write_pair (QueryEscape k)) buf (values_of v k)"

definition Values_Encode :: "Values \<Rightarrow> string" where
  "Values_Encode v =
     (if length v = 0 then [] else foldl (write_key v) [] (sort (remdups (map fst v))))"

text \<open>
  In the words of the spec: the query parameters of a \<^verbatim>\<open>Values\<close> in alphabetical key
  order (the keys sorted, the values of one key in the order they were added), one
  parameter written \<open>key=value\<close> with both escaped, and the parameters joined by
  \<open>&\<close>. \<open>Values_Encode\<close> above is compared with these below.
\<close>

definition pairs_in_key_order :: "Values \<Rightarrow> (string \<times> string) list" where
  "pairs_in_key_order v =
     concat (map (\<lambda>k. map (Pair k) (values_of v k)) (sorted_list_of_set (set (map fst v))))"

definition encode_pair :: "string \<times> string \<Rightarrow> string" where
  "encode_pair p = QueryEscape (fst p) @ ''='' @ QueryEscape (snd p)"

fun join_amp :: "string list \<Rightarrow> string" where
  "join_amp [] = []"
| "join_amp [x] = x"
| "join_amp (x # y # ys) = x @ ''&'' @ join_amp (y # ys)"

text \<open>
  Parsing a URL, printing one and reading the query of one (\<^verbatim>\<open>url.Parse\<close>,
  \<^verbatim>\<open>URL.String\<close>, \<^verbatim>\<open>URL.Query\<close>) are parameters.
\<close>

record net_url =
  url_Parse :: "string \<Rightarrow> error + URL"
  URL_String :: "URL \<Rightarrow> string"
  URL_Query :: "URL \<Rightarrow> Values"

section \<open>The metadata parser\<close>

text \<open>
  The XML machinery is outside the repository: \<^verbatim>\<open>xrv.Validate\<close> and
  \<^verbatim>\<open>xml.Unmarshal\<close> are parameters. Both source functions hand \<^verbatim>\<open>xml.Unmarshal\<close>
  a pointer to a freshly zeroed struct, so a decoder is a function from the bytes to
  the error it returns (if any) together with the content of that struct after the
  call.
\<close>

record ('time, 'idp) xml_decoder =
  xrv_Validate :: "byte list \<Rightarrow> error option"
  Unmarshal_EntityDescriptor ::
    "byte list \<Rightarrow> error option \<times> ('time, 'idp) EntityDescriptor"
  Unmarshal_EntitiesDescriptor ::
    "byte list \<Rightarrow> error option \<times> ('time, 'idp) EntitiesDescriptor"

text \<open>
  The loop of ParseMetadata:
  \<^verbatim>\<open>for i, e := range entities.EntityDescriptors { if len(e.IDPSSODescriptors) > 0 { return &entities.EntityDescriptors[i], nil } }\<close>
  followed by \<^verbatim>\<open>return nil, errors.New("no entity found with IDPSSODescriptor")\<close>.
\<close>

fun first_with_IDPSSODescriptor ::
  "('time, 'idp) EntityDescriptor list \<Rightarrow> error + ('time, 'idp) EntityDescriptor" where
  "first_with_IDPSSODescriptor [] = Inl (errors_New ''no entity found with IDPSSODescriptor'')"
| "first_with_IDPSSODescriptor (e # es) =
     (if length (IDPSSODescriptors e) > 0 then Inr e else first_with_IDPSSODescriptor es)"

definition ParseMetadata ::
  "('time, 'idp) xml_decoder \<Rightarrow> byte list \<Rightarrow> error + ('time, 'idp) EntityDescriptor" where
  "ParseMetadata xml data =
     (case xrv_Validate xml data of
        Some err \<Rightarrow> Inl err
      | None \<Rightarrow>
          (case Unmarshal_EntityDescriptor xml data of
             (Some err, _) \<Rightarrow>
               if Error err = ''expected element type <EntityDescriptor> but have <EntitiesDescriptor>''
               then (case Unmarshal_EntitiesDescriptor xml data of
                       (Some err', _) \<Rightarrow> Inl err'
                     | (None, entities) \<Rightarrow>
                         first_with_IDPSSODescriptor (EntityDescriptors entities))
               else Inl err
           | (None, entity) \<Rightarrow> Inr entity))"

definition ParseEntitiesMetadata ::
  "('time, 'idp) xml_decoder \<Rightarrow> byte list \<Rightarrow> error + ('time, 'idp) EntitiesDescriptor" where
  "ParseEntitiesMetadata xml data =
     (case xrv_Validate xml data of
        Some err \<Rightarrow> Inl err
      | None \<Rightarrow>
          (case Unmarshal_EntitiesDescriptor xml data of
             (Some err, entities) \<Rightarrow>
               if Error err = ''expected element type <EntitiesDescriptor> but have <EntityDescriptor>''
               then (case Unmarshal_EntityDescriptor xml data of
                       (Some err', _) \<Rightarrow> Inl err'
                     | (None, entity) \<Rightarrow> Inr (entities\<lparr>EntityDescriptors := [entity]\<rparr>))
               else Inl err
           | (None, entities) \<Rightarrow> Inr entities))"

section \<open>The metadata fetcher\<close>

text \<open>
  Package net/http is a parameter: building the request, binding it to the context and
  the round trip of the client (a non-nil \<^verbatim>\<open>*http.Client\<close>);
  \<^verbatim>\<open>metadataURL.String()\<close> is that of package net/url above. A response is its status
  code and its body; the body is what \<^verbatim>\<open>io.ReadAll\<close> and \<^verbatim>\<open>Close\<close> give on it.
\<close>

record ReadCloser =
  ReadAll :: "error + byte list"
  Close :: "error option"

record Response =
  StatusCode :: int
  Body :: ReadCloser

record ('req, 'ctx, 'client) net_http =
  http_NewRequest :: "string \<Rightarrow> string \<Rightarrow> error + 'req"
  WithContext :: "'req \<Rightarrow> 'ctx \<Rightarrow> 'req"
  Client_Do :: "'client \<Rightarrow> 'req \<Rightarrow> error + Response"

text \<open>
  The deferred function: it closes the body and, when that fails, prints one line on
  the default logger. The lines printed are returned beside the result.
\<close>

definition close_body :: "Response \<Rightarrow> string list" where
  "close_body resp =
     (case Close (Body resp) of
        Some err \<Rightarrow> [''Error while closing response body during fetch metadata: '' @ Error err]
      | None \<Rightarrow> [])"

definition fetchMetadata ::
  "('req, 'ctx, 'client) net_http \<Rightarrow> net_url \<Rightarrow> 'ctx \<Rightarrow> 'client \<Rightarrow> URL \<Rightarrow>
     (byte list \<Rightarrow> error + 'r) \<Rightarrow> (error + 'r) \<times> string list" where
  "fetchMetadata http url ctx httpClient metadataURL f =
     (case http_NewRequest http ''GET'' (URL_String url metadataURL) of
        Inl err \<Rightarrow> (Inl err, [])
      | Inr req \<Rightarrow>
          (case Client_Do http httpClient (WithContext http req ctx) of
             Inl err \<Rightarrow> (Inl err, [])
           | Inr resp \<Rightarrow>
               (if StatusCode resp \<ge> 400
                then Inl (errorString (''failed to fetch metadata: unexpected status code ''
                            @ fmt_d (StatusCode resp)))
                else (case ReadAll (Body resp) of
                        Inl err \<Rightarrow> Inl err
                      | Inr data \<Rightarrow> f data),
                close_body resp)))"

definition FetchMetadata where
  "FetchMetadata http xml url ctx httpClient metadataURL =
     fetchMetadata http url ctx httpClient metadataURL (ParseMetadata xml)"

definition FetchEntityMetatada where
  "FetchEntityMetatada http xml url ctx httpClient metadataURL =
     fetchMetadata http url ctx httpClient metadataURL (ParseMetadata xml)"

definition FetchEntitiesMetadata where
  "FetchEntitiesMetadata http xml url ctx httpClient metadataURL =
     fetchMetadata http url ctx httpClient metadataURL (ParseEntitiesMetadata xml)"

section \<open>Package encoding/base64\<close>

text \<open>
  \<^verbatim>\<open>base64.StdEncoding.EncodeToString\<close>: three bytes give four characters of the
  standard alphabet; one or two bytes left over give two or three characters and
  \<^verbatim>\<open>=\<close> padding.
\<close>

definition encodeStd :: string where
  "encodeStd = ''ABCDEFGHIJKLMNOPQRSTUVWXYZabcdefghijklmnopqrstuvwxyz0123456789+/''"

definition sextet :: "nat \<Rightarrow> nat \<Rightarrow> char" where
  "sextet val shift = encodeStd ! ((val div 2 ^ shift) mod 64)"

fun EncodeToString :: "byte list \<Rightarrow> string" where
  "EncodeToString (a # b # c # src) =
     (let val = unat a * 65536 + unat b * 256 + unat c
      in sextet val 18 # sextet val 12 # sextet val 6 # sextet val 0 # EncodeToString src)"
| "EncodeToString [a, b] =
     (let val = unat a * 65536 + unat b * 256
      in [sextet val 18, sextet val 12, sextet val 6, CHR ''=''])"
| "EncodeToString [a] =
     (let val = unat a * 65536
      in [sextet val 18, sextet val 12, CHR ''='', CHR ''=''])"
| "EncodeToString [] = []"

section \<open>The registry: Metadata\<close>

text \<open>
  Names of package \<^verbatim>\<open>saml\<close> that the method uses and the source files do not
  declare (\<^verbatim>\<open>DefaultValidDuration\<close>, \<^verbatim>\<open>HTTPPostBinding\<close>, \<^verbatim>\<open>HTTPArtifactBinding\<close>), the
  instant that the call \<^verbatim>\<open>TimeNow()\<close> returns, and \<^verbatim>\<open>Time.Add\<close> of the standard
  library, are parameters.
\<close>

record 'time saml_pkg =
  DefaultValidDuration :: Duration
  TimeNow :: 'time
  Time_Add :: "'time \<Rightarrow> Duration \<Rightarrow> 'time"
  HTTPPostBinding :: string
  HTTPArtifactBinding :: string

text \<open>
  Modelled from the spec: \<^verbatim>\<open>firstSet\<close>, a helper of package \<^verbatim>\<open>saml\<close> that is not in
  the source files. The spec: the entity identifier is the tenant's configured
  identifier if set, else the metadata-endpoint URL in string form.
\<close>

definition firstSet :: "string \<Rightarrow> string \<Rightarrow> string" where
  "firstSet a b = (if a = [] then b else a)"

text \<open>
  \<^verbatim>\<open>certBytes := smp.Certificate.Raw\<close>, then
  \<^verbatim>\<open>for _, intermediate := range smp.Intermediates { certBytes = append(certBytes, intermediate.Raw...) }\<close>.
  \<open>certBytes\<close> starts as the leaf's own slice, so an append that fits in its capacity
  writes into the leaf's backing array. Reading \<^verbatim>\<open>Raw\<close> through a nil element of
  \<^verbatim>\<open>Intermediates\<close> panics. The loop returns the slice and the memory it leaves.
\<close>

fun append_intermediates ::
  "(nat \<Rightarrow> nat \<Rightarrow> nat) \<Rightarrow> memory \<Rightarrow> slice \<Rightarrow> Certificate option list \<Rightarrow>
     slice outcome \<times> memory" where
  "append_intermediates growslice mem certBytes [] = (Returns certBytes, mem)"
| "append_intermediates growslice mem certBytes (None # intermediates) =
     (Panics nil_pointer_dereference, mem)"
| "append_intermediates growslice mem certBytes (Some intermediate # intermediates) =
     (case append_bytes growslice mem certBytes (bytes_of mem (Raw intermediate)) of
        (certBytes', mem') \<Rightarrow> append_intermediates growslice mem' certBytes' intermediates)"

definition encryption_KeyDescriptor :: "byte list \<Rightarrow> KeyDescriptor" where
  "encryption_KeyDescriptor certBytes =
     \<lparr>Use = ''encryption'',
      KeyInfo = \<lparr>X509Data = \<lparr>X509Certificates = [\<lparr>Data = EncodeToString certBytes\<rparr>]\<rparr>\<rparr>,
      EncryptionMethods =
        [\<lparr>Algorithm = ''http://www.w3.org/2001/04/xmlenc#aes128-cbc''\<rparr>,
         \<lparr>Algorithm = ''http://www.w3.org/2001/04/xmlenc#aes192-cbc''\<rparr>,
         \<lparr>Algorithm = ''http://www.w3.org/2001/04/xmlenc#aes256-cbc''\<rparr>,
         \<lparr>Algorithm = ''http://www.w3.org/2001/04/xmlenc#rsa-oaep-mgf1p''\<rparr>]\<rparr>"

definition signing_KeyDescriptor :: "byte list \<Rightarrow> KeyDescriptor" where
  "signing_KeyDescriptor certBytes =
     \<lparr>Use = ''signing'',
      KeyInfo = \<lparr>X509Data = \<lparr>X509Certificates = [\<lparr>Data = EncodeToString certBytes\<rparr>]\<rparr>\<rparr>,
      EncryptionMethods = []\<rparr>"

definition keyDescriptors_of ::
  "(nat \<Rightarrow> nat \<Rightarrow> nat) \<Rightarrow> ('time, 'idp, 'sp) ServiceMultipleProvider \<Rightarrow> memory \<Rightarrow>
     KeyDescriptor list outcome \<times> memory" where
  "keyDescriptors_of growslice smp mem =
     (case Certificate smp of
        None \<Rightarrow> (Returns [], mem)
      | Some certificate \<Rightarrow>
          (case append_intermediates growslice mem (Raw certificate) (Intermediates smp) of
             (Panics p, mem') \<Rightarrow> (Panics p, mem')
           | (Returns certBytes, mem') \<Rightarrow>
               (Returns ([encryption_KeyDescriptor (bytes_of mem' certBytes)] @
                         (if length (SignatureMethod smp) > 0
                          then [signing_KeyDescriptor (bytes_of mem' certBytes)] else [])),
                mem')))"

definition sloEndpoints_of ::
  "net_url \<Rightarrow> ('time, 'idp, 'sp) ServiceMultipleProvider \<Rightarrow> Endpoint list" where
  "sloEndpoints_of url smp =
     map (\<lambda>binding. \<lparr>Endpoint.Binding = binding,
                      Location = URL_String url (SloURL smp),
                      ResponseLocation = URL_String url (SloURL smp)\<rparr>)
         (LogoutBindings smp)"

text \<open>
  The method: what it returns (or the panic), and the memory it leaves, which differs
  from the memory it found when an append wrote into the leaf's backing array.
\<close>

definition Metadata ::
  "'time saml_pkg \<Rightarrow> net_url \<Rightarrow> (nat \<Rightarrow> nat \<Rightarrow> nat) \<Rightarrow>
     ('time, 'idp, 'sp) ServiceMultipleProvider \<Rightarrow> memory \<Rightarrow>
     ('time, 'idp) EntityDescriptor outcome \<times> memory" where
  "Metadata saml url growslice smp mem =
     (let validDuration =
            (if MetadataValidDuration smp > 0 then MetadataValidDuration smp
             else DefaultValidDuration saml);
          authnRequestsSigned = (length (SignatureMethod smp) > 0);
          wantAssertionsSigned = True;
          validUntil = Time_Add saml (TimeNow saml) validDuration
      in case keyDescriptors_of growslice smp mem of
           (Panics p, mem') \<Rightarrow> (Panics p, mem')
         | (Returns keyDescriptors, mem') \<Rightarrow>
             (Returns
               \<lparr>EntityDescriptor.EntityID =
                  firstSet (ServiceMultipleProvider.EntityID smp) (URL_String url (MetadataURL smp)),
                ValidUntil = validUntil,
                IDPSSODescriptors = [],
                SPSSODescriptors =
                  [\<lparr>SSODescriptor =
                      \<lparr>RoleDescriptor =
                          \<lparr>ProtocolSupportEnumeration = ''urn:oasis:names:tc:SAML:2.0:protocol'',
                           KeyDescriptors = keyDescriptors,
                           ValidUntil = Some validUntil\<rparr>,
                       SingleLogoutServices = sloEndpoints_of url smp,
                       NameIDFormats = [AuthnNameIDFormat smp]\<rparr>,
                    AuthnRequestsSigned = Some authnRequestsSigned,
                    WantAssertionsSigned = Some wantAssertionsSigned,
                    AssertionConsumerServices =
                      [\<lparr>IndexedEndpoint.Binding = HTTPPostBinding saml,
                        Location = URL_String url (AcsURL smp),
                        Index = 1\<rparr>,
                       \<lparr>IndexedEndpoint.Binding = HTTPArtifactBinding saml,
                        Location = URL_String url (AcsURL smp),
                        Index = 2\<rparr>]\<rparr>]\<rparr>,
              mem'))"

section \<open>The discovery redirector: MakeWayfRedirectionRequest\<close>

text \<open>
  The statements of the method in order. \<^verbatim>\<open>smp.IDPMetadata.Name\<close> reads a field
  through the pointer \<^verbatim>\<open>smp.IDPMetadata\<close>; on a nil pointer that read panics, and it
  comes before the test \<^verbatim>\<open>wayfUrl == nil\<close>.
\<close>

definition MakeWayfRedirectionRequest ::
  "net_url \<Rightarrow> ('time, 'idp, 'sp) ServiceMultipleProvider \<Rightarrow> string \<Rightarrow> string \<Rightarrow>
     (error + URL) outcome" where
  "MakeWayfRedirectionRequest url smp relayState returnUrl =
     (case url_Parse url returnUrl of
        Inl err \<Rightarrow> Returns (Inl err)
      | Inr u0 \<Rightarrow>
          (let query = Values_Add (URL_Query url u0) ''rs'' relayState;
               u = u0\<lparr>RawQuery := Values_Encode query\<rparr>
           in case IDPMetadata smp of
                None \<Rightarrow> Panics nil_pointer_dereference
              | Some idpMetadata \<Rightarrow>
                  (case Name idpMetadata of
                     None \<Rightarrow> Returns (Inl (errors_New ''identity name is not set''))
                   | Some wayfUrl \<Rightarrow>
                       (case url_Parse url wayfUrl of
                          Inl err \<Rightarrow> Returns (Inl err)
                        | Inr wu \<Rightarrow>
                            (let query = Values_Add
                                           (Values_Add (URL_Query url wu) ''return'' (URL_String url u))
                                           ''entityID'' (ServiceMultipleProvider.EntityID smp)
                             in Returns (Inr (wu\<lparr>RawQuery := Values_Encode query\<rparr>)))))))"

section \<open>An example tenant\<close>

text \<open>
  Concrete values on which the definitions above are evaluated below: what package
  net/url gives on the two URLs of the spec's example (neither has a query) and on the
  base URL with three parameters of its own, instants
  and durations counted in nanoseconds, and a tenant with a leaf certificate and two
  intermediates whose raw bytes are "fo", "o" and "bar", in a registry of two
  service providers.
\<close>

definition example_url :: net_url where
  "example_url =
     \<lparr>url_Parse = (\<lambda>s.
        if s = ''https://sp.example/cb''
        then Inr \<lparr>Scheme = ''https'', Opaque = [], Host = ''sp.example'', Path = ''/cb'',
                  RawQuery = [], Fragment = []\<rparr>
        else if s = ''https://idp.example/wayf''
        then Inr \<lparr>Scheme = ''https'', Opaque = [], Host = ''idp.example'', Path = ''/wayf'',
                  RawQuery = [], Fragment = []\<rparr>
        else if s = ''https://idp.example/wayf?x=1&entityID=old&return=y''
        then Inr \<lparr>Scheme = ''https'', Opaque = [], Host = ''idp.example'', Path = ''/wayf'',
                  RawQuery = ''x=1&entityID=old&return=y'', Fragment = []\<rparr>
        else Inl (errorString ''parse error'')),
      URL_String = (\<lambda>u. Scheme u @ ''://'' @ Host u @ Path u @
                         (if RawQuery u = [] then [] else CHR ''?'' # RawQuery u)),
      URL_Query = (\<lambda>u.
        if RawQuery u = ''x=1&entityID=old&return=y''
        then [(''x'', [''1'']), (''entityID'', [''old'']), (''return'', [''y''])]
        else [])\<rparr>"

definition example_saml :: "int saml_pkg" where
  "example_saml =
     \<lparr>DefaultValidDuration = 172800000000000,
      TimeNow = 1700000000000000000,
      Time_Add = (\<lambda>t d. t + d),
      HTTPPostBinding = ''urn:oasis:names:tc:SAML:2.0:bindings:HTTP-POST'',
      HTTPArtifactBinding = ''urn:oasis:names:tc:SAML:2.0:bindings:HTTP-Artifact''\<rparr>"

definition example_mem :: memory where
  "example_mem = [[0x66, 0x6f], [0x6f], [0x62, 0x61, 0x72, 0x00]]"

definition example_growslice :: "nat \<Rightarrow> nat \<Rightarrow> nat" where
  "example_growslice oldcap need = max 8 (2 * oldcap)"

definition example_smp :: "(int, unit, string) ServiceMultipleProvider" where
  "example_smp =
     \<lparr>ServiceMultipleProvider.EntityID = ''urn:tenant'',
      Providers = [''urn:a'' \<mapsto> ''tenant a'', ''urn:b'' \<mapsto> ''tenant b''],
      Certificate = Some \<lparr>Raw = \<lparr>array = 0, low = 0, len = 2, cap = 2\<rparr>\<rparr>,
      Intermediates = [Some \<lparr>Raw = \<lparr>array = 1, low = 0, len = 1, cap = 1\<rparr>\<rparr>,
                       Some \<lparr>Raw = \<lparr>array = 2, low = 0, len = 3, cap = 4\<rparr>\<rparr>],
      MetadataURL = \<lparr>Scheme = ''https'', Opaque = [], Host = ''sp.example'',
                     Path = ''/metadata'', RawQuery = [], Fragment = []\<rparr>,
      AcsURL = \<lparr>Scheme = ''https'', Opaque = [], Host = ''sp.example'',
                Path = ''/acs'', RawQuery = [], Fragment = []\<rparr>,
      SloURL = \<lparr>Scheme = ''https'', Opaque = [], Host = ''sp.example'',
                Path = ''/slo'', RawQuery = [], Fragment = []\<rparr>,
      IDPMetadata = Some \<lparr>Name = Some ''https://idp.example/wayf'', EntityDescriptors = []\<rparr>,
      AuthnNameIDFormat = ''urn:oasis:names:tc:SAML:2.0:nameid-format:transient'',
      MetadataValidDuration = 0,
      AllowIDPInitiated = False,
      DefaultRedirectURI = [],
      SignatureMethod = ''http://www.w3.org/2001/04/xmldsig-more#rsa-sha256'',
      LogoutBindings = [''urn:oasis:names:tc:SAML:2.0:bindings:HTTP-POST'']\<rparr>"



section \<open>Properties of the metadata parser\<close>

lemma first_with_IDPSSODescriptor_none:
  "(\<forall>e \<in> set es. IDPSSODescriptors e = []) \<Longrightarrow>
     first_with_IDPSSODescriptor es = Inl (errors_New ''no entity found with IDPSSODescriptor'')"
  by (induction es) auto

lemma first_with_IDPSSODescriptor_first:
  "i < length es \<Longrightarrow> IDPSSODescriptors (es ! i) \<noteq> [] \<Longrightarrow>
     (\<forall>j < i. IDPSSODescriptors (es ! j) = []) \<Longrightarrow>
     first_with_IDPSSODescriptor es = Inr (es ! i)"
proof (induction es arbitrary: i)
  case Nil
  then show ?case by simp
next
  case (Cons e es)
  show ?case
  proof (cases i)
    case 0
    with Cons.prems show ?thesis by simp
  next
    case (Suc k)
    with Cons.prems have head: "IDPSSODescriptors e = []"
      by auto
    from Suc Cons.prems have "first_with_IDPSSODescriptor es = Inr (es ! k)"
      by (intro Cons.IH) auto
    with head Suc show ?thesis by simp
  qed
qed

text \<open>
  The errors that ParseMetadata hands on unchanged: a failed validation, a decode
  failure with any other message, and a failure of the second decode.
\<close>

lemma ParseMetadata_invalid:
  "xrv_Validate xml data = Some err \<Longrightarrow> ParseMetadata xml data = Inl err"
  by (simp add: ParseMetadata_def)

lemma ParseMetadata_other_decode_error:
  "xrv_Validate xml data = None \<Longrightarrow>
   Unmarshal_EntityDescriptor xml data = (Some err, partial) \<Longrightarrow>
   Error err \<noteq> ''expected element type <EntityDescriptor> but have <EntitiesDescriptor>'' \<Longrightarrow>
   ParseMetadata xml data = Inl err"
  by (simp add: ParseMetadata_def)

lemma ParseMetadata_second_decode_error:
  "xrv_Validate xml data = None \<Longrightarrow>
   Unmarshal_EntityDescriptor xml data = (Some err, partial) \<Longrightarrow>
   Error err = ''expected element type <EntityDescriptor> but have <EntitiesDescriptor>'' \<Longrightarrow>
   Unmarshal_EntitiesDescriptor xml data = (Some err', partial') \<Longrightarrow>
   ParseMetadata xml data = Inl err'"
  by (simp add: ParseMetadata_def)

lemma ParseMetadata_single:
  "xrv_Validate xml data = None \<Longrightarrow>
   Unmarshal_EntityDescriptor xml data = (None, entity) \<Longrightarrow>
   ParseMetadata xml data = Inr entity"
  by (simp add: ParseMetadata_def)

text \<open>
  C1. Let the input pass validation, let its decode as a single EntityDescriptor fail
  with the message that encoding/xml gives when the root element is
  EntitiesDescriptor, and let the second decode give the EntitiesDescriptor
  \<open>entities\<close>. Then ParseMetadata returns the entity at the first position of the
  list whose IDPSSODescriptors is non-empty (every earlier entity has none); and if no
  entity of the list has one, it fails with the error
  "no entity found with IDPSSODescriptor".
\<close>

theorem ParseMetadata_fallback:
  assumes valid: "xrv_Validate xml data = None"
    and mismatch: "Unmarshal_EntityDescriptor xml data = (Some err, partial)"
    and message:
      "Error err = ''expected element type <EntityDescriptor> but have <EntitiesDescriptor>''"
    and decoded: "Unmarshal_EntitiesDescriptor xml data = (None, entities)"
  shows "(\<forall>i < length (EntityDescriptors entities).
            IDPSSODescriptors (EntityDescriptors entities ! i) \<noteq> [] \<and>
            (\<forall>j < i. IDPSSODescriptors (EntityDescriptors entities ! j) = []) \<longrightarrow>
            ParseMetadata xml data = Inr (EntityDescriptors entities ! i)) \<and>
         ((\<forall>e \<in> set (EntityDescriptors entities). IDPSSODescriptors e = []) \<longrightarrow>
            ParseMetadata xml data = Inl (errors_New ''no entity found with IDPSSODescriptor''))"
proof -
  from valid mismatch message decoded
  have "ParseMetadata xml data = first_with_IDPSSODescriptor (EntityDescriptors entities)"
    by (simp add: ParseMetadata_def)
  then show ?thesis
    by (simp add: first_with_IDPSSODescriptor_none first_with_IDPSSODescriptor_first)
qed

text \<open>
  The spec's example: of the entities A (no IDP descriptor), B and C (one each),
  B is returned; and of A alone, none is found.
\<close>

theorem ParseMetadata_fallback_witness:
  "ParseMetadata
     \<lparr>xrv_Validate = (\<lambda>d. None),
      Unmarshal_EntityDescriptor = (\<lambda>d.
        (Some (errorString ''expected element type <EntityDescriptor> but have <EntitiesDescriptor>''),
         \<lparr>EntityDescriptor.EntityID = [], ValidUntil = 0::nat, IDPSSODescriptors = [],
          SPSSODescriptors = []\<rparr>)),
      Unmarshal_EntitiesDescriptor = (\<lambda>d. (None, \<lparr>Name = None, EntityDescriptors =
        [\<lparr>EntityDescriptor.EntityID = ''A'', ValidUntil = 0, IDPSSODescriptors = [],
          SPSSODescriptors = []\<rparr>,
         \<lparr>EntityDescriptor.EntityID = ''B'', ValidUntil = 0, IDPSSODescriptors = [1::nat],
          SPSSODescriptors = []\<rparr>,
         \<lparr>EntityDescriptor.EntityID = ''C'', ValidUntil = 0, IDPSSODescriptors = [2],
          SPSSODescriptors = []\<rparr>]\<rparr>))\<rparr>
     [0x3c]
   = Inr \<lparr>EntityDescriptor.EntityID = ''B'', ValidUntil = 0, IDPSSODescriptors = [1],
          SPSSODescriptors = []\<rparr> \<and>
   ParseMetadata
     \<lparr>xrv_Validate = (\<lambda>d. None),
      Unmarshal_EntityDescriptor = (\<lambda>d.
        (Some (errorString ''expected element type <EntityDescriptor> but have <EntitiesDescriptor>''),
         \<lparr>EntityDescriptor.EntityID = [], ValidUntil = 0::nat, IDPSSODescriptors = [],
          SPSSODescriptors = []\<rparr>)),
      Unmarshal_EntitiesDescriptor = (\<lambda>d. (None, \<lparr>Name = None, EntityDescriptors =
        [\<lparr>EntityDescriptor.EntityID = ''A'', ValidUntil = 0, IDPSSODescriptors = ([] :: nat list),
          SPSSODescriptors = []\<rparr>]\<rparr>))\<rparr>
     [0x3c]
   = Inl (errorString ''no entity found with IDPSSODescriptor'')"
  (is "ParseMetadata ?xml ?data = _ \<and> ParseMetadata ?xml' ?data = _")
proof -
  have found: "ParseMetadata ?xml ?data
      = Inr \<lparr>EntityDescriptor.EntityID = ''B'', ValidUntil = 0, IDPSSODescriptors = [1],
             SPSSODescriptors = []\<rparr>"
    using ParseMetadata_fallback [of ?xml ?data
        "errorString ''expected element type <EntityDescriptor> but have <EntitiesDescriptor>''"
        "\<lparr>EntityDescriptor.EntityID = [], ValidUntil = 0::nat, IDPSSODescriptors = [],
          SPSSODescriptors = []\<rparr>"
        "\<lparr>Name = None, EntityDescriptors =
          [\<lparr>EntityDescriptor.EntityID = ''A'', ValidUntil = 0, IDPSSODescriptors = [],
            SPSSODescriptors = []\<rparr>,
           \<lparr>EntityDescriptor.EntityID = ''B'', ValidUntil = 0, IDPSSODescriptors = [1::nat],
            SPSSODescriptors = []\<rparr>,
           \<lparr>EntityDescriptor.EntityID = ''C'', ValidUntil = 0, IDPSSODescriptors = [2],
            SPSSODescriptors = []\<rparr>]\<rparr>"]
    by (simp add: nth_Cons' All_less_Suc)
  have none: "ParseMetadata ?xml' ?data = Inl (errorString ''no entity found with IDPSSODescriptor'')"
    using ParseMetadata_fallback [of ?xml' ?data
        "errorString ''expected element type <EntityDescriptor> but have <EntitiesDescriptor>''"
        "\<lparr>EntityDescriptor.EntityID = [], ValidUntil = 0::nat, IDPSSODescriptors = [],
          SPSSODescriptors = []\<rparr>"
        "\<lparr>Name = None, EntityDescriptors =
          [\<lparr>EntityDescriptor.EntityID = ''A'', ValidUntil = 0, IDPSSODescriptors = ([] :: nat list),
            SPSSODescriptors = []\<rparr>]\<rparr>"]
    by (simp add: errors_New_def)
  from found none show ?thesis by (rule conjI)
qed

text \<open>
  C2. Let the input pass validation, let its decode as an EntitiesDescriptor fail with
  the message that encoding/xml gives when the root element is EntityDescriptor, and
  let its decode as a single EntityDescriptor give \<open>entity\<close>. Then
  ParseEntitiesMetadata succeeds, and the entity list of the EntitiesDescriptor it
  returns is exactly \<open>[entity]\<close>.
\<close>

theorem ParseEntitiesMetadata_fallback:
  assumes valid: "xrv_Validate xml data = None"
    and mismatch: "Unmarshal_EntitiesDescriptor xml data = (Some err, entities)"
    and message:
      "Error err = ''expected element type <EntitiesDescriptor> but have <EntityDescriptor>''"
    and decoded: "Unmarshal_EntityDescriptor xml data = (None, entity)"
  shows "\<exists>result. ParseEntitiesMetadata xml data = Inr result \<and>
           EntityDescriptors result = [entity] \<and>
           result = entities\<lparr>EntityDescriptors := [entity]\<rparr>"
  using assms by (simp add: ParseEntitiesMetadata_def)

theorem ParseEntitiesMetadata_fallback_witness:
  "ParseEntitiesMetadata
     \<lparr>xrv_Validate = (\<lambda>d. None),
      Unmarshal_EntityDescriptor = (\<lambda>d. (None,
          \<lparr>EntityDescriptor.EntityID = ''https://idp.example'', ValidUntil = 7::nat,
           IDPSSODescriptors = [1::nat], SPSSODescriptors = []\<rparr>)),
      Unmarshal_EntitiesDescriptor = (\<lambda>d.
          (Some (errorString ''expected element type <EntitiesDescriptor> but have <EntityDescriptor>''),
           \<lparr>Name = None, EntityDescriptors = []\<rparr>))\<rparr>
     [0x3c]
   = Inr \<lparr>Name = None, EntityDescriptors =
            [\<lparr>EntityDescriptor.EntityID = ''https://idp.example'', ValidUntil = 7,
              IDPSSODescriptors = [1], SPSSODescriptors = []\<rparr>]\<rparr>"
  (is "ParseEntitiesMetadata ?xml ?data = _")
  using ParseEntitiesMetadata_fallback [of ?xml ?data
     "errorString ''expected element type <EntitiesDescriptor> but have <EntityDescriptor>''"
     "\<lparr>Name = None, EntityDescriptors = []\<rparr>"
     "\<lparr>EntityDescriptor.EntityID = ''https://idp.example'', ValidUntil = 7::nat,
           IDPSSODescriptors = [1::nat], SPSSODescriptors = []\<rparr>"]
  by simp

section \<open>Properties of the metadata fetcher\<close>

lemma digit_value_digit: "digit_value (digit n) = n mod 10"
  by (simp add: digit_value_def digit_def)

lemma read_decimal_snoc: "read_decimal (s @ [c]) = 10 * read_decimal s + digit_value c"
  by (simp add: read_decimal_def)

lemma read_decimal_decimal: "read_decimal (decimal n) = n"
proof (induction n rule: decimal.induct)
  case (1 n)
  show ?case
  proof (cases "n < 10")
    case True
    then show ?thesis
      by (subst decimal.simps) (simp add: read_decimal_def digit_value_digit)
  next
    case False
    with 1 have "read_decimal (decimal (n div 10)) = n div 10"
      by simp
    with False show ?thesis
      by (subst decimal.simps) (simp add: read_decimal_snoc digit_value_digit)
  qed
qed

lemma fmt_d_nonneg: "0 \<le> i \<Longrightarrow> int (read_decimal (fmt_d i)) = i"
  by (simp add: fmt_d_def read_decimal_decimal)

lemma fmt_d_404: "fmt_d 404 = ''404''"
  by code_simp

lemma status_error_result:
  assumes "http_NewRequest http ''GET'' (URL_String url metadataURL) = Inr req"
    and "Client_Do http httpClient (WithContext http req ctx) = Inr resp"
    and "StatusCode resp \<ge> 400"
  shows "fetchMetadata http url ctx httpClient metadataURL f =
           (Inl (errorString (''failed to fetch metadata: unexpected status code ''
                   @ fmt_d (StatusCode resp))),
            close_body resp)"
  using assms by (simp add: fetchMetadata_def)

text \<open>
  C3. Let the request be built and let the client answer it with a response whose
  status code is 400 or more. Then fetchMetadata fails with the error
  "failed to fetch metadata: unexpected status code N", N the decimal numeral of the
  status code (reading N back gives the code). The result is the same for every parse
  operation \<open>f\<close> and every body of the response: neither is looked at. The same holds of
  FetchEntityMetatada and FetchEntitiesMetadata, which call fetchMetadata with the two
  parsers.
\<close>

theorem fetchMetadata_status_error:
  assumes request: "http_NewRequest http ''GET'' (URL_String url metadataURL) = Inr req"
    and response: "Client_Do http httpClient (WithContext http req ctx) = Inr resp"
    and status: "StatusCode resp \<ge> 400"
  shows "fst (fetchMetadata http url ctx httpClient metadataURL f) =
           Inl (errorString (''failed to fetch metadata: unexpected status code ''
                  @ fmt_d (StatusCode resp))) \<and>
         int (read_decimal (fmt_d (StatusCode resp))) = StatusCode resp \<and>
         fst (FetchEntityMetatada http xml url ctx httpClient metadataURL) =
           Inl (errorString (''failed to fetch metadata: unexpected status code ''
                  @ fmt_d (StatusCode resp))) \<and>
         fst (FetchEntitiesMetadata http xml url ctx httpClient metadataURL) =
           Inl (errorString (''failed to fetch metadata: unexpected status code ''
                  @ fmt_d (StatusCode resp)))"
proof -
  from status have "int (read_decimal (fmt_d (StatusCode resp))) = StatusCode resp"
    by (intro fmt_d_nonneg) simp
  then show ?thesis
    by (simp add: status_error_result [OF request response status]
        FetchEntityMetatada_def FetchEntitiesMetadata_def)
qed

text \<open>The spec's example: a response with status 404, whatever its body.\<close>

theorem fetchMetadata_status_error_witness:
  "fst (fetchMetadata
          \<lparr>http_NewRequest = (\<lambda>method target. Inr (method, target)),
           WithContext = (\<lambda>req ctx. req),
           Client_Do = (\<lambda>client req. Inr
              \<lparr>StatusCode = 404,
               Body = \<lparr>ReadAll = Inr [0x3c, 0x61, 0x2f, 0x3e], Close = None\<rparr>\<rparr>)\<rparr>
          \<lparr>url_Parse = (\<lambda>s. Inl (errorString ''unused'')),
           URL_String = (\<lambda>u. Scheme u @ ''://'' @ Host u @ Path u),
           URL_Query = (\<lambda>u. [])\<rparr>
          () ()
          \<lparr>Scheme = ''https'', Opaque = [], Host = ''idp.example'', Path = ''/metadata'',
           RawQuery = [], Fragment = []\<rparr>
          (\<lambda>data. Inr data))
   = Inl (errorString ''failed to fetch metadata: unexpected status code 404'')"
  (is "fst (fetchMetadata ?http ?url ?ctx ?client ?u ?f) = _")
  using fetchMetadata_status_error [of ?http ?url ?u "(''GET'', ''https://idp.example/metadata'')"
      ?client ?ctx
      "\<lparr>StatusCode = 404, Body = \<lparr>ReadAll = Inr [0x3c, 0x61, 0x2f, 0x3e], Close = None\<rparr>\<rparr>" ?f
      "\<lparr>xrv_Validate = (\<lambda>d. None),
        Unmarshal_EntityDescriptor = (\<lambda>d. (None,
          \<lparr>EntityDescriptor.EntityID = [], ValidUntil = (), IDPSSODescriptors = [()],
           SPSSODescriptors = []\<rparr>)),
        Unmarshal_EntitiesDescriptor = (\<lambda>d. (None, \<lparr>Name = None, EntityDescriptors = []\<rparr>))\<rparr>"]
  by (simp add: fmt_d_404)

section \<open>Properties of slices and append\<close>



lemma overwrite_length:
  "k + length vs \<le> length arr \<Longrightarrow>
   length (take k arr @ vs @ drop (k + length vs) arr) = length arr"
  by simp








lemma append_intermediates_cases:
  "(\<exists>s'. fst (append_intermediates growslice mem s ims) = Returns s') \<and> None \<notin> set ims \<or>
   fst (append_intermediates growslice mem s ims) = Panics nil_pointer_dereference \<and> None \<in> set ims"
proof (induction growslice mem s ims rule: append_intermediates.induct)
  case (1 growslice mem certBytes)
  then show ?case by simp
next
  case (2 growslice mem certBytes intermediates)
  then show ?case by simp
next
  case (3 growslice mem certBytes intermediate intermediates)
  then show ?case
    by (auto simp: case_prod_unfold)
qed


section \<open>Properties of Metadata\<close>

lemma keyDescriptors_of_cases:
  "(\<exists>kds. fst (keyDescriptors_of growslice smp mem) = Returns kds) \<or>
   fst (keyDescriptors_of growslice smp mem) = Panics nil_pointer_dereference \<and>
     Certificate smp \<noteq> None \<and> None \<in> set (Intermediates smp)"
proof (cases "Certificate smp")
  case None
  then show ?thesis by (simp add: keyDescriptors_of_def)
next
  case (Some certificate)
  with append_intermediates_cases [of growslice mem "Raw certificate" "Intermediates smp"]
  show ?thesis
    by (auto simp: keyDescriptors_of_def case_prod_unfold split: outcome.splits)
qed


lemma keyDescriptors_of_no_certificate:
  "Certificate smp = None \<Longrightarrow> keyDescriptors_of growslice smp mem = (Returns [], mem)"
  by (simp add: keyDescriptors_of_def)

text \<open>The descriptor that Metadata returns, once the key descriptors are built.\<close>

lemma Metadata_Returns:
  "fst (keyDescriptors_of growslice smp mem) = Returns kds \<Longrightarrow>
   fst (Metadata saml url growslice smp mem) = Returns
     \<lparr>EntityDescriptor.EntityID =
        firstSet (ServiceMultipleProvider.EntityID smp) (URL_String url (MetadataURL smp)),
      ValidUntil = Time_Add saml (TimeNow saml)
        (if MetadataValidDuration smp > 0 then MetadataValidDuration smp
         else DefaultValidDuration saml),
      IDPSSODescriptors = [],
      SPSSODescriptors =
        [\<lparr>SSODescriptor =
            \<lparr>RoleDescriptor =
                \<lparr>ProtocolSupportEnumeration = ''urn:oasis:names:tc:SAML:2.0:protocol'',
                 KeyDescriptors = kds,
                 ValidUntil = Some (Time_Add saml (TimeNow saml)
                   (if MetadataValidDuration smp > 0 then MetadataValidDuration smp
                    else DefaultValidDuration saml))\<rparr>,
             SingleLogoutServices = sloEndpoints_of url smp,
             NameIDFormats = [AuthnNameIDFormat smp]\<rparr>,
          AuthnRequestsSigned = Some (SignatureMethod smp \<noteq> []),
          WantAssertionsSigned = Some True,
          AssertionConsumerServices =
            [\<lparr>IndexedEndpoint.Binding = HTTPPostBinding saml,
              Location = URL_String url (AcsURL smp),
              Index = 1\<rparr>,
             \<lparr>IndexedEndpoint.Binding = HTTPArtifactBinding saml,
              Location = URL_String url (AcsURL smp),
              Index = 2\<rparr>]\<rparr>]\<rparr>"
  by (cases "keyDescriptors_of growslice smp mem") (simp add: Metadata_def Let_def)

lemma Metadata_Panics:
  "fst (keyDescriptors_of growslice smp mem) = Panics p \<Longrightarrow>
   fst (Metadata saml url growslice smp mem) = Panics p"
  by (cases "keyDescriptors_of growslice smp mem") (simp add: Metadata_def Let_def)

text \<open>
  Metadata returns a descriptor unless a certificate is configured and the slice of
  intermediates holds a nil pointer. The memory it leaves is the one the loop leaves.
\<close>

lemma Metadata_returns_iff:
  "(\<exists>md. fst (Metadata saml url growslice smp mem) = Returns md) \<longleftrightarrow>
     (Certificate smp = None \<or> None \<notin> set (Intermediates smp))"
proof (cases "Certificate smp")
  case None
  then show ?thesis
    by (simp add: Metadata_Returns keyDescriptors_of_no_certificate)
next
  case (Some certificate)
  with append_intermediates_cases [of growslice mem "Raw certificate" "Intermediates smp"]
  show ?thesis
    by (auto simp: Metadata_def Let_def keyDescriptors_of_def case_prod_unfold
        split: outcome.splits)
qed

lemma Metadata_memory:
  "snd (Metadata saml url growslice smp mem) = snd (keyDescriptors_of growslice smp mem)"
  by (cases "keyDescriptors_of growslice smp mem")
    (simp add: Metadata_def Let_def split: outcome.splits)

lemma EncodeToString_foobar:
  "EncodeToString [0x66, 0x6f, 0x6f, 0x62, 0x61, 0x72] = ''Zm9vYmFy''"
  by (simp add: sextet_def encodeStd_def)

lemma EncodeToString_padding:
  "EncodeToString [0x66] = ''Zg=='' \<and> EncodeToString [0x66, 0x6f] = ''Zm8=''"
  by (simp add: sextet_def encodeStd_def)

text \<open>
  C4. For every tenant configuration, the EntityDescriptor that Metadata returns has
  ValidUntil equal to now plus MetadataValidDuration when that duration is configured
  (the code's test: greater than zero), and to now plus DefaultValidDuration otherwise.
  Metadata does return one, except that it panics when a certificate is configured
  and an intermediate is a nil pointer.
\<close>

theorem Metadata_ValidUntil:
  "(\<exists>md. fst (Metadata saml url growslice smp mem) = Returns md \<and>
      (0 < MetadataValidDuration smp \<longrightarrow>
         EntityDescriptor.ValidUntil md
           = Time_Add saml (TimeNow saml) (MetadataValidDuration smp)) \<and>
      (MetadataValidDuration smp \<le> 0 \<longrightarrow>
         EntityDescriptor.ValidUntil md
           = Time_Add saml (TimeNow saml) (DefaultValidDuration saml))) \<or>
   fst (Metadata saml url growslice smp mem) = Panics nil_pointer_dereference \<and>
     Certificate smp \<noteq> None \<and> None \<in> set (Intermediates smp)"
  using keyDescriptors_of_cases [of growslice smp mem]
  by (auto simp: Metadata_Returns Metadata_Panics)

text \<open>
  With one hour configured the descriptor is valid until now plus one hour; with
  nothing configured (zero), or a negative duration, until now plus the default.
\<close>

theorem Metadata_ValidUntil_witness:
  "(case fst (Metadata example_saml example_url example_growslice
           (example_smp\<lparr>MetadataValidDuration := 3600000000000\<rparr>) example_mem) of
      Returns md \<Rightarrow> Some (EntityDescriptor.ValidUntil md) | Panics p \<Rightarrow> None)
     = Some 1700003600000000000 \<and>
   (case fst (Metadata example_saml example_url example_growslice example_smp example_mem) of
      Returns md \<Rightarrow> Some (EntityDescriptor.ValidUntil md) | Panics p \<Rightarrow> None)
     = Some 1700172800000000000 \<and>
   (case fst (Metadata example_saml example_url example_growslice
           (example_smp\<lparr>MetadataValidDuration := - 5\<rparr>) example_mem) of
      Returns md \<Rightarrow> Some (EntityDescriptor.ValidUntil md) | Panics p \<Rightarrow> None)
     = Some 1700172800000000000"
  using Metadata_ValidUntil [of example_saml example_url example_growslice
          "example_smp\<lparr>MetadataValidDuration := 3600000000000\<rparr>" example_mem]
        Metadata_ValidUntil [of example_saml example_url example_growslice example_smp example_mem]
        Metadata_ValidUntil [of example_saml example_url example_growslice
          "example_smp\<lparr>MetadataValidDuration := - 5\<rparr>" example_mem]
  by (auto simp: example_saml_def example_smp_def)

text \<open>
  C5. For every tenant configuration, the descriptor that Metadata returns has one SP
  role descriptor, which declares exactly two assertion-consumer endpoints: index 1
  with the binding HTTPPostBinding and index 2 with the binding HTTPArtifactBinding,
  both at the string form of AcsURL. Its list of logout endpoints has the length of
  LogoutBindings (and carries those bindings in order); it is empty when no binding is
  configured.
\<close>

theorem Metadata_endpoints:
  "(\<exists>md sp. fst (Metadata saml url growslice smp mem) = Returns md \<and>
      SPSSODescriptors md = [sp] \<and>
      AssertionConsumerServices sp =
        [\<lparr>IndexedEndpoint.Binding = HTTPPostBinding saml,
          Location = URL_String url (AcsURL smp), Index = 1\<rparr>,
         \<lparr>IndexedEndpoint.Binding = HTTPArtifactBinding saml,
          Location = URL_String url (AcsURL smp), Index = 2\<rparr>] \<and>
      length (SingleLogoutServices (SSODescriptor sp)) = length (LogoutBindings smp) \<and>
      map Endpoint.Binding (SingleLogoutServices (SSODescriptor sp)) = LogoutBindings smp \<and>
      (LogoutBindings smp = [] \<longrightarrow> SingleLogoutServices (SSODescriptor sp) = [])) \<or>
   fst (Metadata saml url growslice smp mem) = Panics nil_pointer_dereference \<and>
     Certificate smp \<noteq> None \<and> None \<in> set (Intermediates smp)"
  using keyDescriptors_of_cases [of growslice smp mem]
  by (auto simp: Metadata_Returns Metadata_Panics sloEndpoints_of_def comp_def)

theorem Metadata_endpoints_witness:
  "(case fst (Metadata example_saml example_url example_growslice example_smp example_mem) of
      Returns md \<Rightarrow>
        map (\<lambda>sp. (AssertionConsumerServices sp,
                   map Endpoint.Binding (SingleLogoutServices (SSODescriptor sp))))
          (SPSSODescriptors md)
    | Panics p \<Rightarrow> [])
     = [([\<lparr>IndexedEndpoint.Binding = ''urn:oasis:names:tc:SAML:2.0:bindings:HTTP-POST'',
           Location = ''https://sp.example/acs'', Index = 1\<rparr>,
          \<lparr>IndexedEndpoint.Binding = ''urn:oasis:names:tc:SAML:2.0:bindings:HTTP-Artifact'',
           Location = ''https://sp.example/acs'', Index = 2\<rparr>],
         [''urn:oasis:names:tc:SAML:2.0:bindings:HTTP-POST''])] \<and>
   (case fst (Metadata example_saml example_url example_growslice
           (example_smp\<lparr>Certificate := None, LogoutBindings := []\<rparr>) example_mem) of
      Returns md \<Rightarrow>
        map (\<lambda>sp. (map Index (AssertionConsumerServices sp),
                   SingleLogoutServices (SSODescriptor sp)))
          (SPSSODescriptors md)
    | Panics p \<Rightarrow> [])
     = [([1, 2], [])]"
  using Metadata_endpoints [of example_saml example_url example_growslice example_smp example_mem]
        Metadata_endpoints [of example_saml example_url example_growslice
          "example_smp\<lparr>Certificate := None, LogoutBindings := []\<rparr>" example_mem]
  by (auto simp: example_saml_def example_smp_def example_url_def)




text \<open>
  C7. For every tenant configuration, the SP role descriptor of the descriptor that
  Metadata returns has AuthnRequestsSigned pointing to true if and only if
  SignatureMethod is non-empty, whether or not a certificate is configured, and
  WantAssertionsSigned pointing to true.
\<close>

theorem Metadata_signed_flags:
  "(\<exists>md sp. fst (Metadata saml url growslice smp mem) = Returns md \<and>
      SPSSODescriptors md = [sp] \<and>
      AuthnRequestsSigned sp = Some (SignatureMethod smp \<noteq> []) \<and>
      WantAssertionsSigned sp = Some True) \<or>
   fst (Metadata saml url growslice smp mem) = Panics nil_pointer_dereference \<and>
     Certificate smp \<noteq> None \<and> None \<in> set (Intermediates smp)"
  using keyDescriptors_of_cases [of growslice smp mem]
  by (auto simp: Metadata_Returns Metadata_Panics)

theorem Metadata_signed_flags_witness:
  "(case fst (Metadata example_saml example_url example_growslice example_smp example_mem) of
      Returns md \<Rightarrow>
        map (\<lambda>sp. (AuthnRequestsSigned sp, WantAssertionsSigned sp)) (SPSSODescriptors md)
    | Panics p \<Rightarrow> [])
     = [(Some True, Some True)] \<and>
   (case fst (Metadata example_saml example_url example_growslice
           (example_smp\<lparr>SignatureMethod := []\<rparr>) example_mem) of
      Returns md \<Rightarrow>
        map (\<lambda>sp. (AuthnRequestsSigned sp, WantAssertionsSigned sp)) (SPSSODescriptors md)
    | Panics p \<Rightarrow> [])
     = [(Some False, Some True)] \<and>
   (case fst (Metadata example_saml example_url example_growslice
           (example_smp\<lparr>Certificate := None\<rparr>) example_mem) of
      Returns md \<Rightarrow>
        map (\<lambda>sp. (AuthnRequestsSigned sp, WantAssertionsSigned sp)) (SPSSODescriptors md)
    | Panics p \<Rightarrow> [])
     = [(Some True, Some True)] \<and>
   (case fst (Metadata example_saml example_url example_growslice
           (example_smp\<lparr>Certificate := None, SignatureMethod := []\<rparr>) example_mem) of
      Returns md \<Rightarrow>
        map (\<lambda>sp. (AuthnRequestsSigned sp, WantAssertionsSigned sp)) (SPSSODescriptors md)
    | Panics p \<Rightarrow> [])
     = [(Some False, Some True)]"
  using Metadata_signed_flags [of example_saml example_url example_growslice example_smp
          example_mem]
        Metadata_signed_flags [of example_saml example_url example_growslice
          "example_smp\<lparr>SignatureMethod := []\<rparr>" example_mem]
        Metadata_signed_flags [of example_saml example_url example_growslice
          "example_smp\<lparr>Certificate := None\<rparr>" example_mem]
        Metadata_signed_flags [of example_saml example_url example_growslice
          "example_smp\<lparr>Certificate := None, SignatureMethod := []\<rparr>" example_mem]
  by (auto simp: example_smp_def)

section \<open>Properties of query values\<close>

text \<open>
  \<open>Values_Encode\<close> writes the parameters in key order, each as \<open>key=value\<close>, joined by
  \<open>&\<close>; and \<open>Values_Add\<close> puts one more parameter among them, after the parameters
  whose key is at most its own.
\<close>

lemma join_amp_Cons: "join_amp (x # xs) = x @ concat (map (\<lambda>y. CHR ''&'' # y) xs)"
  by (induction xs arbitrary: x) auto

lemma write_pair_encode: "write_pair (QueryEscape k) buf x =
    (if buf = [] then encode_pair (k, x) else buf @ CHR ''&'' # encode_pair (k, x))"
  by (simp add: write_pair_def encode_pair_def)

lemma encode_pair_not_empty: "encode_pair p \<noteq> []"
  by (simp add: encode_pair_def)

lemma write_pairs_nonempty:
  "buf \<noteq> [] \<Longrightarrow>
   foldl (\<lambda>b p. write_pair (QueryEscape (fst p)) b (snd p)) buf ps
     = buf @ concat (map (\<lambda>p. CHR ''&'' # encode_pair p) ps)"
  by (induction ps arbitrary: buf) (simp_all add: write_pair_encode)

lemma write_pairs_join:
  "foldl (\<lambda>b p. write_pair (QueryEscape (fst p)) b (snd p)) [] ps = join_amp (map encode_pair ps)"
proof (cases ps)
  case Nil
  then show ?thesis by simp
next
  case (Cons p ps')
  have "foldl (\<lambda>b p. write_pair (QueryEscape (fst p)) b (snd p)) [] (p # ps')
      = foldl (\<lambda>b p. write_pair (QueryEscape (fst p)) b (snd p)) (encode_pair p) ps'"
    by (simp add: write_pair_encode)
  also have "\<dots> = encode_pair p @ concat (map (\<lambda>p. CHR ''&'' # encode_pair p) ps')"
    by (rule write_pairs_nonempty [OF encode_pair_not_empty])
  also have "\<dots> = join_amp (map encode_pair (p # ps'))"
    by (simp add: join_amp_Cons comp_def)
  finally show ?thesis
    using Cons by simp
qed

lemma write_key_pairs:
  "foldl (write_key v) buf ks =
     foldl (\<lambda>b p. write_pair (QueryEscape (fst p)) b (snd p)) buf
       (concat (map (\<lambda>k. map (Pair k) (values_of v k)) ks))"
proof (induction ks arbitrary: buf)
  case Nil
  then show ?case by simp
next
  case (Cons k ks)
  have "write_key v buf k =
      foldl (\<lambda>b p. write_pair (QueryEscape (fst p)) b (snd p)) buf (map (Pair k) (values_of v k))"
    by (simp add: write_key_def values_of_def foldl_map)
  with Cons show ?case by simp
qed

lemma sort_keys: "sort (remdups (map fst v)) = sorted_list_of_set (set (map fst v))"
  by (rule sorted_list_of_set_sort_remdups [symmetric])

lemma Values_Encode_pairs:
  "Values_Encode v = join_amp (map encode_pair (pairs_in_key_order v))"
proof (cases "v = []")
  case True
  then show ?thesis
    by (simp add: Values_Encode_def pairs_in_key_order_def)
next
  case False
  then show ?thesis
    by (simp only: Values_Encode_def pairs_in_key_order_def write_key_pairs write_pairs_join
        sort_keys length_0_conv if_False)
qed


lemma filter_key_concat:
  assumes "\<And>k p. p \<in> set (f k) \<Longrightarrow> fst p = k"
  shows "filter (\<lambda>p. P (fst p)) (concat (map f ks)) = concat (map f (filter P ks))"
proof (induction ks)
  case Nil
  then show ?case by simp
next
  case (Cons k ks)
  have "filter (\<lambda>p. P (fst p)) (f k) = (if P k then f k else [])"
    using assms by (auto intro: filter_True filter_False)
  with Cons show ?case by simp
qed

lemma sorted_split_less:
  "sorted ks \<Longrightarrow> distinct ks \<Longrightarrow>
   filter (\<lambda>a. a \<le> k) ks = filter (\<lambda>a. a < k) ks @ (if k \<in> set ks then [k] else [])"
proof (induction ks)
  case Nil
  then show ?case by simp
next
  case (Cons a ks)
  then have above: "\<forall>b \<in> set ks. a < b"
    by (auto simp: less_le)
  show ?case
  proof (cases "a < k")
    case True
    with Cons show ?thesis by auto
  next
    case False
    with above have "\<forall>b \<in> set ks. \<not> b \<le> k"
      by auto
    then have "filter (\<lambda>a. a \<le> k) ks = []" and "filter (\<lambda>a. a < k) ks = []" and "k \<notin> set ks"
      by (auto simp: filter_empty_conv)
    with False show ?thesis by auto
  qed
qed

lemma sorted_split:
  "sorted ks \<Longrightarrow> filter (\<lambda>a. a \<le> k) ks @ filter (\<lambda>a. k < a) ks = ks"
proof (induction ks)
  case Nil
  then show ?case by simp
next
  case (Cons a ks)
  show ?case
  proof (cases "a \<le> k")
    case True
    with Cons show ?thesis by simp
  next
    case False
    with Cons.prems have "\<forall>b \<in> set ks. k < b"
      by auto
    then have "filter (\<lambda>a. a \<le> k) ks = []" and "filter (\<lambda>a. k < a) ks = ks"
      by (auto simp: filter_empty_conv intro: filter_True)
    with False show ?thesis by simp
  qed
qed

lemma sorted_list_of_set_insert_split:
  fixes k :: "'a::linorder"
  assumes "finite K"
  shows "sorted_list_of_set (insert k K) =
     filter (\<lambda>a. a < k) (sorted_list_of_set K) @ [k] @ filter (\<lambda>a. k < a) (sorted_list_of_set K)"
    (is "_ = ?xs")
proof -
  have "sorted ?xs"
    by (auto simp: sorted_append intro: sorted_wrt_filter)
  moreover have "distinct ?xs"
    by auto
  moreover have "set ?xs = insert k K"
    using assms by auto
  ultimately show ?thesis
    by (metis sorted_list_of_set.idem_if_sorted_distinct)
qed


lemma map_of_Some_key: "map_of v k = Some x \<Longrightarrow> k \<in> fst ` set v"
  by (force dest: map_of_SomeD)

lemma map_of_update_all:
  "map_of (map (\<lambda>(k, ws). if k = key then (k, new) else (k, ws)) v) k' =
     (if k' = key then (if key \<in> fst ` set v then Some new else None) else map_of v k')"
  by (induction v) (auto split: if_splits)

lemma map_fst_update_all:
  "map fst (map (\<lambda>(k, ws). if k = key then (k, new) else (k, ws)) v) = map fst v"
  by (induction v) auto

lemma Values_Add_lookup:
  "map_of (Values_Add v key val) k =
     (if k = key then Some ((case map_of v key of None \<Rightarrow> [] | Some vs \<Rightarrow> vs) @ [val])
      else map_of v k)"
proof (cases "map_of v key")
  case None
  then show ?thesis
    by (auto simp: Values_Add_def map_add_def split: option.splits)
next
  case (Some vs)
  with map_of_Some_key [OF Some] show ?thesis
    by (simp add: Values_Add_def map_of_update_all)
qed

lemma Values_Add_keys:
  "set (map fst (Values_Add v key val)) = insert key (set (map fst v))"
proof (cases "map_of v key")
  case None
  then show ?thesis
    by (simp add: Values_Add_def)
next
  case (Some vs)
  from map_of_Some_key [OF Some] have "insert key (set (map fst v)) = set (map fst v)"
    by auto
  then show ?thesis
    by (simp only: Values_Add_def Some option.case map_fst_update_all)
qed

lemma values_of_Values_Add:
  "values_of (Values_Add v key val) k =
     (if k = key then values_of v key @ [val] else values_of v k)"
  by (simp add: values_of_def Values_Add_lookup)

lemma values_of_absent: "k \<notin> set (map fst v) \<Longrightarrow> values_of v k = []"
  by (simp add: values_of_def map_of_eq_None_iff [THEN iffD2])

lemma pairs_in_key_order_Values_Add:
  "pairs_in_key_order (Values_Add v key val) =
     filter (\<lambda>p. fst p \<le> key) (pairs_in_key_order v) @ [(key, val)] @
     filter (\<lambda>p. key < fst p) (pairs_in_key_order v)"
proof -
  let ?ks = "sorted_list_of_set (set (map fst v))"
  let ?f = "\<lambda>k. map (Pair k) (values_of v k)"
  let ?f' = "\<lambda>k. map (Pair k) (values_of (Values_Add v key val) k)"
  have fst_f: "\<And>k p. p \<in> set (?f k) \<Longrightarrow> fst p = k"
    by auto
  have keys: "sorted_list_of_set (set (map fst (Values_Add v key val)))
      = filter (\<lambda>a. a < key) ?ks @ [key] @ filter (\<lambda>a. key < a) ?ks"
    by (simp only: Values_Add_keys) (rule sorted_list_of_set_insert_split, simp)
  have below: "map ?f' (filter (\<lambda>a. a < key) ?ks) = map ?f (filter (\<lambda>a. a < key) ?ks)"
    by (rule map_cong) (auto simp: values_of_Values_Add)
  have above: "map ?f' (filter (\<lambda>a. key < a) ?ks) = map ?f (filter (\<lambda>a. key < a) ?ks)"
    by (rule map_cong) (auto simp: values_of_Values_Add)
  have at: "?f' key = ?f key @ [(key, val)]"
    by (simp add: values_of_Values_Add)
  have new: "pairs_in_key_order (Values_Add v key val) =
      concat (map ?f (filter (\<lambda>a. a < key) ?ks)) @ ?f key @ [(key, val)] @
      concat (map ?f (filter (\<lambda>a. key < a) ?ks))"
    unfolding pairs_in_key_order_def keys
    by (simp only: map_append concat_append below above at list.map concat.simps append_Nil2
        append_assoc)
  have "?f key = [] " if "key \<notin> set ?ks"
    using that by (simp add: values_of_absent)
  then have at_key: "concat (map ?f (if key \<in> set ?ks then [key] else [])) = ?f key"
    by auto
  have "filter (\<lambda>p. fst p \<le> key) (pairs_in_key_order v)
      = concat (map ?f (filter (\<lambda>a. a \<le> key) ?ks))"
    unfolding pairs_in_key_order_def by (rule filter_key_concat [OF fst_f])
  also have "\<dots> = concat (map ?f (filter (\<lambda>a. a < key) ?ks)) @ ?f key"
  proof -
    have "sorted ?ks" and "distinct ?ks"
      by simp_all
    then show ?thesis
      by (simp only: sorted_split_less map_append concat_append at_key)
  qed
  finally have low: "filter (\<lambda>p. fst p \<le> key) (pairs_in_key_order v)
      = concat (map ?f (filter (\<lambda>a. a < key) ?ks)) @ ?f key" .
  have high: "filter (\<lambda>p. key < fst p) (pairs_in_key_order v)
      = concat (map ?f (filter (\<lambda>a. key < a) ?ks))"
    unfolding pairs_in_key_order_def by (rule filter_key_concat [OF fst_f])
  show ?thesis
    by (simp only: new low high append_assoc)
qed


lemma filter_eq_distinct:
  "distinct xs \<Longrightarrow> filter (\<lambda>a. a = k) xs = (if k \<in> set xs then [k] else [])"
  by (induction xs) (auto simp: filter_empty_conv)


lemma pairs_in_key_order_values:
  "map snd (filter (\<lambda>p. fst p = k) (pairs_in_key_order v)) = values_of v k"
proof -
  let ?ks = "sorted_list_of_set (set (map fst v))"
  let ?f = "\<lambda>k. map (Pair k) (values_of v k)"
  have "filter (\<lambda>p. fst p = k) (pairs_in_key_order v) = concat (map ?f (filter (\<lambda>a. a = k) ?ks))"
    unfolding pairs_in_key_order_def by (rule filter_key_concat) auto
  moreover have "filter (\<lambda>a. a = k) ?ks = (if k \<in> set ?ks then [k] else [])"
    by (rule filter_eq_distinct) simp
  ultimately show ?thesis
    by (auto simp: comp_def values_of_absent)
qed


lemma entityID_before_return: "''entityID'' < ''return''"
  by simp

lemma pairs_in_key_order_return_entityID:
  "pairs_in_key_order (Values_Add (Values_Add q ''return'' r) ''entityID'' e) =
     filter (\<lambda>p. fst p \<le> ''entityID'') (pairs_in_key_order q) @
     [(''entityID'', e)] @
     filter (\<lambda>p. ''entityID'' < fst p \<and> fst p \<le> ''return'') (pairs_in_key_order q) @
     [(''return'', r)] @
     filter (\<lambda>p. ''return'' < fst p) (pairs_in_key_order q)"
proof -
  let ?ps = "pairs_in_key_order q"
  have le: "a \<le> ''return''" if "a \<le> ''entityID''" for a :: string
    using that entityID_before_return by (meson less_imp_le order_trans)
  have gt: "''entityID'' < a" if "''return'' < a" for a :: string
    using that entityID_before_return by (meson less_trans)
  have a: "filter (\<lambda>p. fst p \<le> ''entityID'') (filter (\<lambda>p. fst p \<le> ''return'') ?ps)
      = filter (\<lambda>p. fst p \<le> ''entityID'') ?ps"
    using le by (auto intro!: filter_cong)
  have b: "filter (\<lambda>p. fst p \<le> ''entityID'') (filter (\<lambda>p. ''return'' < fst p) ?ps) = []"
    using gt by (fastforce simp: filter_empty_conv)
  have c: "filter (\<lambda>p. ''entityID'' < fst p) (filter (\<lambda>p. fst p \<le> ''return'') ?ps)
      = filter (\<lambda>p. ''entityID'' < fst p \<and> fst p \<le> ''return'') ?ps"
    by (auto intro!: filter_cong)
  have d: "filter (\<lambda>p. ''entityID'' < fst p) (filter (\<lambda>p. ''return'' < fst p) ?ps)
      = filter (\<lambda>p. ''return'' < fst p) ?ps"
    using gt by (auto intro!: filter_cong)
  have e1: "\<not> ''return'' \<le> ''entityID''"
    using entityID_before_return by (simp only: not_le)
  show ?thesis
    using entityID_before_return e1
    by (simp only: pairs_in_key_order_Values_Add filter_append a b c d filter.simps fst_conv
        if_True if_False append_Nil append_Nil2 append_assoc)
qed

section \<open>Properties of MakeWayfRedirectionRequest\<close>

text \<open>The errors that the method hands on unchanged: those of the two calls of url.Parse.\<close>

lemma MakeWayfRedirectionRequest_return_url_error:
  "url_Parse url returnUrl = Inl err \<Longrightarrow>
   MakeWayfRedirectionRequest url smp relayState returnUrl = Returns (Inl err)"
  by (simp add: MakeWayfRedirectionRequest_def)

lemma MakeWayfRedirectionRequest_base_url_error:
  "url_Parse url returnUrl = Inr u \<Longrightarrow> IDPMetadata smp = Some idpMetadata \<Longrightarrow>
   Name idpMetadata = Some wayfUrl \<Longrightarrow> url_Parse url wayfUrl = Inl err \<Longrightarrow>
   MakeWayfRedirectionRequest url smp relayState returnUrl = Returns (Inl err)"
  by (simp add: MakeWayfRedirectionRequest_def Let_def)

lemma pairs_in_key_order_empty: "pairs_in_key_order [] = []"
  by (simp add: pairs_in_key_order_def)

lemma QueryEscape_keys:
  "QueryEscape ''entityID'' = ''entityID''"
  "QueryEscape ''return'' = ''return''"
  "QueryEscape ''rs'' = ''rs''"
  by (simp_all add: QueryEscape_def escape_byte_def shouldEscape_def less_eq_char_def)

text \<open>
  The spec's example in general: when neither the return URL nor the base URL has
  parameters of its own, the query of the result is \<open>entityID=..&return=..\<close> and that
  of the return URL inside it is \<open>rs=..\<close>.
\<close>

lemma MakeWayfRedirectionRequest_plain_base:
  assumes "url_Parse url returnUrl = Inr u"
    and "IDPMetadata smp = Some idpMetadata"
    and "Name idpMetadata = Some wayfUrl"
    and "url_Parse url wayfUrl = Inr wu"
    and "URL_Query url u = []"
    and "URL_Query url wu = []"
  shows "MakeWayfRedirectionRequest url smp relayState returnUrl =
     Returns (Inr (wu\<lparr>RawQuery :=
       ''entityID='' @ QueryEscape (ServiceMultipleProvider.EntityID smp) @ ''&return='' @
       QueryEscape (URL_String url (u\<lparr>RawQuery := ''rs='' @ QueryEscape relayState\<rparr>))\<rparr>))"
proof -
  have inner: "Values_Encode (Values_Add [] ''rs'' relayState) = ''rs='' @ QueryEscape relayState"
    by (simp add: Values_Encode_pairs pairs_in_key_order_Values_Add pairs_in_key_order_empty
        encode_pair_def QueryEscape_keys)
  have outer: "Values_Encode (Values_Add (Values_Add [] ''return'' r) ''entityID'' e) =
      ''entityID='' @ QueryEscape e @ ''&return='' @ QueryEscape r" for r e
    by (simp only: Values_Encode_pairs pairs_in_key_order_return_entityID)
      (simp add: pairs_in_key_order_empty encode_pair_def QueryEscape_keys)
  from assms show ?thesis
    by (simp add: MakeWayfRedirectionRequest_def Let_def inner outer)
qed





text \<open>
  C10. MakeWayfRedirectionRequest returns (a URL or an error) exactly when IDPMetadata
  is non-nil or the return URL fails to parse. On a registry whose IDPMetadata is nil
  and a return URL that parses, the read of \<^verbatim>\<open>smp.IDPMetadata.Name\<close> panics with a
  nil-pointer dereference: the test for an absent name is never reached, and the
  outcome is not the error "identity name is not set".
\<close>

theorem MakeWayfRedirectionRequest_panics:
  "((\<exists>r. MakeWayfRedirectionRequest url smp relayState returnUrl = Returns r) \<longleftrightarrow>
      (IDPMetadata smp \<noteq> None \<or> (\<exists>err. url_Parse url returnUrl = Inl err))) \<and>
   (\<forall>u. url_Parse url returnUrl = Inr u \<and> IDPMetadata smp = None \<longrightarrow>
      MakeWayfRedirectionRequest url smp relayState returnUrl = Panics nil_pointer_dereference \<and>
      MakeWayfRedirectionRequest url smp relayState returnUrl
        \<noteq> Returns (Inl (errors_New ''identity name is not set'')))"
  by (auto simp: MakeWayfRedirectionRequest_def Let_def split: sum.splits option.splits)

theorem MakeWayfRedirectionRequest_panics_witness:
  "MakeWayfRedirectionRequest example_url (example_smp\<lparr>IDPMetadata := None\<rparr>)
       ''abc'' ''https://sp.example/cb'' = Panics nil_pointer_dereference \<and>
   (\<exists>r. MakeWayfRedirectionRequest example_url example_smp
       ''abc'' ''https://sp.example/cb'' = Returns r)"
proof -
  have first: "MakeWayfRedirectionRequest example_url (example_smp\<lparr>IDPMetadata := None\<rparr>)
       ''abc'' ''https://sp.example/cb'' = Panics nil_pointer_dereference"
    using MakeWayfRedirectionRequest_panics [of example_url "example_smp\<lparr>IDPMetadata := None\<rparr>"
        "''abc''" "''https://sp.example/cb''"]
    by (simp add: example_url_def example_smp_def)
  have second: "\<exists>r. MakeWayfRedirectionRequest example_url example_smp
       ''abc'' ''https://sp.example/cb'' = Returns r"
    using MakeWayfRedirectionRequest_panics [of example_url example_smp
        "''abc''" "''https://sp.example/cb''"]
    by (simp add: example_smp_def)
  from first second show ?thesis by (rule conjI)
qed


section \<open>Properties of the registry lookup\<close>

text \<open>
  C8. For every registry and every entity identifier absent from its mapping,
  GetServiceProvider fails with an error whose message ends with (so contains) the
  requested identifier; for every identifier present, it returns exactly the stored
  ServiceProvider configuration.
\<close>

theorem GetServiceProvider_lookup:
  "(Providers smp entityID = None \<longrightarrow>
      (\<exists>err. GetServiceProvider smp entityID = Inl err \<and>
         Error err = ''no service provider found for entityID '' @ entityID \<and>
         (\<exists>before after. Error err = before @ entityID @ after))) \<and>
   (\<forall>sp. Providers smp entityID = Some sp \<longrightarrow> GetServiceProvider smp entityID = Inr sp)"
proof -
  have "\<exists>before after. ''no service provider found for entityID '' @ entityID
          = before @ entityID @ after"
    by (rule exI [of _ "''no service provider found for entityID ''"], rule exI [of _ "[]"]) simp
  then show ?thesis
    by (simp add: GetServiceProvider_def)
qed

text \<open>The spec's example: the identifier "urn:x" is not registered, "urn:a" is.\<close>

theorem GetServiceProvider_lookup_witness:
  "GetServiceProvider example_smp ''urn:x''
     = Inl (errorString ''no service provider found for entityID urn:x'') \<and>
   GetServiceProvider example_smp ''urn:a'' = Inr ''tenant a''"
  using GetServiceProvider_lookup [of example_smp "''urn:x''"]
    GetServiceProvider_lookup [of example_smp "''urn:a''"]
  by (auto simp: example_smp_def intro!: error.expand)

end
